theory Spec2Isabelle
  imports Main "HOL-Library.Word"
begin

section \<open>The collaborators of the middleware\<close>

text \<open>
  \<^verbatim>\<open>glogrus.go\<close> builds a logging middleware around an \<^verbatim>\<open>http.Handler\<close>. The closure
  \<^verbatim>\<open>fn\<close> of \<^verbatim>\<open>NewGlogrusWithReqId\<close> talks to five collaborators: the request it is given, the
  logger \<^verbatim>\<open>l\<close>, the response writer \<^verbatim>\<open>w\<close>, the wrapped handler \<^verbatim>\<open>h\<close> and the clock. Each of
  them is modelled by what the closure can observe of it.
\<close>

subsection \<open>Panics\<close>

text \<open>
  Go has no exceptions; a function of type \<^verbatim>\<open>func(context.Context) string\<close> or a handler
  fails by panicking. A panic is a value \<open>Inl (Panic v)\<close> of the result.
\<close>

datatype error = Panic string

subsection \<open>The request\<close>

text \<open>
  The fields of \<^verbatim>\<open>*http.Request\<close> the closure reads: \<^verbatim>\<open>r.RequestURI\<close>, \<^verbatim>\<open>r.Method\<close>,
  \<^verbatim>\<open>r.RemoteAddr\<close> and \<^verbatim>\<open>r.Context()\<close>. The context is opaque to the middleware, hence
  the type parameter.
\<close>

record 'c Request =
  RequestURI :: string
  Method :: string
  RemoteAddr :: string
  Context :: 'c

subsection \<open>The logger\<close>

text \<open>
  \<^verbatim>\<open>logrus.Fields\<close> is a \<^verbatim>\<open>map[string]interface{}\<close>; the closure stores strings and one
  \<^verbatim>\<open>int\<close> in it. An entry is what one call \<^verbatim>\<open>l.WithFields(fields).Info(msg)\<close> hands to the
  logger: the level of the call, the message and the fields. A record is emitted when it is
  handed to the logger; what the logger does with it (its configured level, formatter and
  output) is the logger's own business.
\<close>

datatype Level =
  PanicLevel | FatalLevel | ErrorLevel | WarnLevel | InfoLevel | DebugLevel | TraceLevel

datatype Value = VString string | VInt int

type_synonym Fields = "string \<rightharpoonup> Value"

record Entry =
  level :: Level
  message :: string
  data :: Fields

text \<open>
  What happens during a request, in order: an entry handed to the logger, the call of the
  wrapped handler, and its normal return. The events so far are the state the requests
  share; the entries among them are what the logger \<^verbatim>\<open>l\<close> has received.
\<close>

datatype event = Logged Entry | Called | Returned

definition Info :: "Fields \<Rightarrow> string \<Rightarrow> event list \<Rightarrow> event list" where
  "Info fs msg evs = evs @ [Logged \<lparr>level = InfoLevel, message = msg, data = fs\<rparr>]"

subsection \<open>The underlying response writer\<close>

text \<open>
  The \<^verbatim>\<open>http.ResponseWriter\<close> the host server passes in is seen through the calls it
  receives, in order.
\<close>

type_synonym bytes = "8 word list"

datatype call = WriteHeaderCall int | WriteCall bytes

type_synonym ResponseWriter = "call list"

subsection \<open>The response observer\<close>

text \<open>
  Modelled from the spec: \<^verbatim>\<open>wrapWriter\<close>, \<^verbatim>\<open>maybeWriteHeader\<close>, \<^verbatim>\<open>status\<close> and the
  \<^verbatim>\<open>WriteHeader\<close> and \<^verbatim>\<open>Write\<close> methods of the value \<^verbatim>\<open>wrapWriter\<close> returns are called by
  \<^verbatim>\<open>glogrus.go\<close> but defined in a file that is not among the sources. The spec (3 and 4.1)
  describes a ResponseObserver that owns the inner writer and holds a status-written flag
  and the captured status code.
\<close>

record Observer =
  inner :: ResponseWriter
  wroteHeader :: bool
  code :: int

text \<open>
  Modelled from the spec: \<^verbatim>\<open>wrapWriter\<close> is missing. A fresh observer around \<open>w\<close>;
  nothing is captured yet (the zero values of Go).
\<close>

definition wrapWriter :: "ResponseWriter \<Rightarrow> Observer" where
  "wrapWriter w = \<lparr>inner = w, wroteHeader = False, code = 0\<rparr>"

text \<open>
  Modelled from the spec: the \<^verbatim>\<open>WriteHeader\<close> method is missing. Spec 4.1: it forwards
  \<open>c\<close> to the underlying writer, records \<open>c\<close> as the captured status and marks the
  status written; only the first code observed is recorded.
\<close>

definition WriteHeader :: "int \<Rightarrow> Observer \<Rightarrow> Observer" where
  "WriteHeader c b =
     (if wroteHeader b then b\<lparr>inner := inner b @ [WriteHeaderCall c]\<rparr>
      else b\<lparr>inner := inner b @ [WriteHeaderCall c], wroteHeader := True, code := c\<rparr>)"

text \<open>
  Modelled from the spec: the \<^verbatim>\<open>Write\<close> method is missing. Spec 4.1: if the status has
  not been written, the observer records 200 (the transport sends it implicitly) before
  it forwards the write.
\<close>

definition Write :: "bytes \<Rightarrow> Observer \<Rightarrow> Observer" where
  "Write buf b =
     (let b' = (if wroteHeader b then b else b\<lparr>wroteHeader := True, code := 200\<rparr>)
      in b'\<lparr>inner := inner b' @ [WriteCall buf]\<rparr>)"

text \<open>
  Modelled from the spec: \<^verbatim>\<open>maybeWriteHeader\<close> is missing. Spec 4.1, FinalizeIfUnset: if
  no status was ever written it records and sends 200; it does nothing if a status was
  already captured.
\<close>

definition maybeWriteHeader :: "Observer \<Rightarrow> Observer" where
  "maybeWriteHeader b = (if wroteHeader b then b else WriteHeader 200 b)"

text \<open>
  Modelled from the spec: \<^verbatim>\<open>status\<close> is missing. Spec 4.1, CapturedStatus: the recorded
  status code.
\<close>

definition status :: "Observer \<Rightarrow> int" where
  "status b = code b"

subsection \<open>The wrapped handler\<close>

text \<open>
  \<^verbatim>\<open>h.ServeHTTP(lresp, r)\<close> runs code the middleware does not know. Through its two
  arguments that code can call \<^verbatim>\<open>WriteHeader\<close> and \<^verbatim>\<open>Write\<close> on the observer and assign to
  the request \<^verbatim>\<open>r\<close> points to; it ends by returning or by panicking. A handler is therefore
  a function from the request to the run it makes: the actions in order, and the ending.
\<close>

datatype 'c action =
    DoWriteHeader int
  | DoWrite bytes
  | DoAssign "'c Request \<Rightarrow> 'c Request"

datatype ending = Returns | Panics error

record 'c run =
  actions :: "'c action list"
  ending :: ending

type_synonym 'c Handler = "'c Request \<Rightarrow> 'c run"

fun perform :: "'c action \<Rightarrow> Observer \<times> 'c Request \<Rightarrow> Observer \<times> 'c Request" where
  "perform (DoWriteHeader c) (b, r) = (WriteHeader c b, r)"
| "perform (DoWrite buf) (b, r) = (Write buf b, r)"
| "perform (DoAssign f) (b, r) = (b, f r)"

text \<open>
  The state a call of the handler leaves behind: how it ended, the observer, the request
  and the events.
\<close>

record 'c served =
  ended :: "error + unit"
  observer :: Observer
  req :: "'c Request"
  trace :: "event list"

definition ServeHTTP :: "'c Handler \<Rightarrow> Observer \<Rightarrow> 'c Request \<Rightarrow> event list \<Rightarrow> 'c served" where
  "ServeHTTP h lresp r evs =
     (let hr = h r;
          (lresp', r') = fold perform (actions hr) (lresp, r)
      in case ending hr of
           Returns \<Rightarrow>
             \<lparr>ended = Inr (), observer = lresp', req = r', trace = evs @ [Called, Returned]\<rparr>
         | Panics e \<Rightarrow>
             \<lparr>ended = Inl e, observer = lresp', req = r', trace = evs @ [Called]\<rparr>)"

subsection \<open>The clock and the formatter\<close>

text \<open>
  \<^verbatim>\<open>time.Now()\<close> at line 75 and \<^verbatim>\<open>time.Since(start)\<close> at line 90 read the clock of the host.
  A request comes with the two readings, in nanoseconds; \<^verbatim>\<open>time.Since(start)\<close> is their
  difference.
\<close>

record Clock =
  now_start :: int
  now_served :: int

definition Since :: "Clock \<Rightarrow> int \<Rightarrow> int" where
  "Since clk start = now_served clk - start"

section \<open>The middleware\<close>

text \<open>
  What a call of the closure \<^verbatim>\<open>fn\<close> leaves behind: \<open>Inr ()\<close> when it returned or the panic
  that went through it, the events of the logger, the underlying writer and the request.
\<close>

record 'c outcome =
  result :: "error + unit"
  events :: "event list"
  writer :: ResponseWriter
  request :: "'c Request"

text \<open>
  \<^verbatim>\<open>NewGlogrusWithReqId(l, name, reqidf)(h).ServeHTTP(w, r)\<close>, lines 71 to 105. The first
  argument stands for \<^verbatim>\<open>fmt.Sprintf("%6.4f ms", float64(d) / float64(time.Millisecond))\<close> as
  a function of the duration \<open>d\<close>: floating point code of the Go library, kept as a
  parameter. The last argument is the list of events so far, which holds what the logger
  \<^verbatim>\<open>l\<close> has received.
\<close>

definition NewGlogrusWithReqId ::
  "(int \<Rightarrow> string) \<Rightarrow> string \<Rightarrow> ('c \<Rightarrow> error + string) \<Rightarrow> 'c Handler \<Rightarrow>
     Clock \<Rightarrow> ResponseWriter \<Rightarrow> 'c Request \<Rightarrow> event list \<Rightarrow> 'c outcome" where
  "NewGlogrusWithReqId sprintf name reqidf h clk w r l =
     (let ctx = Context r;
          start = now_start clk
      in case reqidf ctx of
           Inl e \<Rightarrow> \<lparr>result = Inl e, events = l, writer = w, request = r\<rparr>
         | Inr reqID \<Rightarrow>
             (let l1 = Info [''req_id'' \<mapsto> VString reqID,
                             ''uri'' \<mapsto> VString (RequestURI r),
                             ''method'' \<mapsto> VString (Method r),
                             ''remote'' \<mapsto> VString (RemoteAddr r)] ''req_start'' l;
                  lresp = wrapWriter w;
                  s = ServeHTTP h lresp r l1
              in case ended s of
                   Inl e \<Rightarrow>
                     \<lparr>result = Inl e, events = trace s, writer = inner (observer s),
                      request = req s\<rparr>
                 | Inr u \<Rightarrow>
                     (let lresp' = maybeWriteHeader (observer s);
                          latency = Since clk start;
                          l2 = Info [''req_id'' \<mapsto> VString reqID,
                                     ''status'' \<mapsto> VInt (status lresp'),
                                     ''method'' \<mapsto> VString (Method (req s)),
                                     ''uri'' \<mapsto> VString (RequestURI (req s)),
                                     ''remote'' \<mapsto> VString (RemoteAddr (req s)),
                                     ''latency'' \<mapsto> VString (sprintf latency),
                                     ''app'' \<mapsto> VString name] ''req_served'' (trace s)
                      in \<lparr>result = Inr (), events = l2, writer = inner lresp',
                          request = req s\<rparr>)))"

text \<open>\<^verbatim>\<open>emptyRequestId\<close>, lines 107 to 109.\<close>

definition emptyRequestId :: "'c \<Rightarrow> error + string" where
  "emptyRequestId ctx = Inr ''''"

text \<open>\<^verbatim>\<open>NewGlogrus\<close>, lines 36 to 38.\<close>

definition NewGlogrus ::
  "(int \<Rightarrow> string) \<Rightarrow> string \<Rightarrow> 'c Handler \<Rightarrow>
     Clock \<Rightarrow> ResponseWriter \<Rightarrow> 'c Request \<Rightarrow> event list \<Rightarrow> 'c outcome" where
  "NewGlogrus sprintf name = NewGlogrusWithReqId sprintf name emptyRequestId"

section \<open>What the specification expects\<close>

text \<open>
  The status the specification expects in the completion record, read off the actions of
  the handler: the first code the handler set with \<^verbatim>\<open>WriteHeader\<close>, or 200 if it called
  \<^verbatim>\<open>Write\<close> before setting one, or 200 if it did neither.
\<close>

fun expected_status :: "'c action list \<Rightarrow> int" where
  "expected_status [] = 200"
| "expected_status (DoWriteHeader c # rest) = c"
| "expected_status (DoWrite buf # rest) = 200"
| "expected_status (DoAssign f # rest) = expected_status rest"

text \<open>The effect of one action of the handler on the request alone.\<close>

fun assigned :: "'c action \<Rightarrow> 'c Request \<Rightarrow> 'c Request" where
  "assigned (DoAssign f) r = f r"
| "assigned (DoWriteHeader c) r = r"
| "assigned (DoWrite buf) r = r"

section \<open>Sample requests\<close>

text \<open>A request, a clock, resolvers and handlers after the scenarios of the specification.\<close>

definition ping :: "unit Request" where
  "ping = \<lparr>RequestURI = ''/ping'', Method = ''GET'', RemoteAddr = ''10.0.0.1:4242'',
            Context = ()\<rparr>"

definition upload :: "unit Request" where
  "upload = \<lparr>RequestURI = ''/files'', Method = ''POST'', RemoteAddr = ''10.0.0.2:5151'',
              Context = ()\<rparr>"

definition tick :: Clock where
  "tick = \<lparr>now_start = 1000, now_served = 1501000\<rparr>"


definition render :: "int \<Rightarrow> string" where
  "render d = (if d = 1500000 then ''1.5000 ms'' else ''0.2500 ms'')"

definition req_123 :: "unit \<Rightarrow> error + string" where
  "req_123 ctx = Inr ''req-123''"

definition broken_resolver :: "unit \<Rightarrow> error + string" where
  "broken_resolver ctx = Inl (Panic ''no request id'')"

definition not_found :: "unit Handler" where
  "not_found r = \<lparr>actions = [DoWriteHeader 404], ending = Returns\<rparr>"

definition body_only :: "unit Handler" where
  "body_only r = \<lparr>actions = [DoWrite [104, 105]], ending = Returns\<rparr>"

definition silent :: "unit Handler" where
  "silent r = \<lparr>actions = [], ending = Returns\<rparr>"

definition crashing :: "unit Handler" where
  "crashing r = \<lparr>actions = [DoWriteHeader 500], ending = Panics (Panic ''boom'')\<rparr>"

definition real_ip :: "unit Handler" where
  "real_ip r = \<lparr>actions = [DoAssign (\<lambda>q. q\<lparr>RemoteAddr := ''192.0.2.7''\<rparr>), DoWriteHeader 204],
               ending = Returns\<rparr>"


section \<open>The observer during a call of the handler\<close>

lemma perform_wrote:
  "wroteHeader (fst p) \<Longrightarrow>
     wroteHeader (fst (perform a p)) \<and> code (fst (perform a p)) = code (fst p)"
  by (cases a; cases p) (simp_all add: WriteHeader_def Write_def)

lemma fold_perform_wrote:
  "wroteHeader (fst p) \<Longrightarrow>
     wroteHeader (fst (fold perform acts p)) \<and> code (fst (fold perform acts p)) = code (fst p)"
proof (induction acts arbitrary: p)
  case Nil
  then show ?case by simp
next
  case (Cons a acts)
  from perform_wrote [OF Cons.prems, of a] Cons.IH [of "perform a p"]
  show ?case by simp
qed

lemma fold_perform_fresh:
  "\<not> wroteHeader b \<Longrightarrow>
     status (maybeWriteHeader (fst (fold perform acts (b, r)))) = expected_status acts"
proof (induction acts arbitrary: b r)
  case Nil
  then show ?case by (simp add: maybeWriteHeader_def WriteHeader_def status_def)
next
  case (Cons a acts)
  show ?case
  proof (cases a)
    case (DoWriteHeader c)
    let ?p = "perform a (b, r)"
    have w: "wroteHeader (fst ?p)" and c: "code (fst ?p) = c"
      using Cons.prems DoWriteHeader by (simp_all add: WriteHeader_def)
    from fold_perform_wrote [OF w, of acts] c DoWriteHeader
    show ?thesis by (simp add: maybeWriteHeader_def status_def)
  next
    case (DoWrite buf)
    let ?p = "perform a (b, r)"
    have w: "wroteHeader (fst ?p)" and c: "code (fst ?p) = 200"
      using Cons.prems DoWrite by (simp_all add: Write_def)
    from fold_perform_wrote [OF w, of acts] c DoWrite
    show ?thesis by (simp add: maybeWriteHeader_def status_def)
  next
    case (DoAssign f)
    with Cons.IH [OF Cons.prems, of "f r"] show ?thesis by simp
  qed
qed

lemma status_after_handler:
  "status (maybeWriteHeader (fst (fold perform acts (wrapWriter w, r)))) = expected_status acts"
  by (rule fold_perform_fresh) (simp add: wrapWriter_def)

lemma request_after_handler:
  "snd (fold perform acts (b, r)) = fold assigned acts r"
proof (induction acts arbitrary: b r)
  case Nil
  show ?case by simp
next
  case (Cons a acts)
  show ?case by (cases a) (simp_all add: Cons.IH)
qed

section \<open>The three ways a request ends\<close>

lemma resolver_panics:
  assumes "reqidf (Context r) = Inl e"
  shows "NewGlogrusWithReqId sprintf name reqidf h clk w r l =
    \<lparr>result = Inl e, events = l, writer = w, request = r\<rparr>"
  using assms by (simp add: NewGlogrusWithReqId_def)

lemma handler_panics:
  assumes "reqidf (Context r) = Inr reqID" and "ending (h r) = Panics e"
  shows "NewGlogrusWithReqId sprintf name reqidf h clk w r l =
    \<lparr>result = Inl e,
     events = l @
       [Logged \<lparr>level = InfoLevel, message = ''req_start'',
                data = [''req_id'' \<mapsto> VString reqID,
                        ''uri'' \<mapsto> VString (RequestURI r),
                        ''method'' \<mapsto> VString (Method r),
                        ''remote'' \<mapsto> VString (RemoteAddr r)]\<rparr>,
        Called],
     writer = inner (fst (fold perform (actions (h r)) (wrapWriter w, r))),
     request = snd (fold perform (actions (h r)) (wrapWriter w, r))\<rparr>"
  using assms
  by (simp add: NewGlogrusWithReqId_def ServeHTTP_def Info_def Let_def case_prod_beta)

lemma handler_returns:
  assumes "reqidf (Context r) = Inr reqID" and "ending (h r) = Returns"
  shows "NewGlogrusWithReqId sprintf name reqidf h clk w r l =
    \<lparr>result = Inr (),
     events = l @
       [Logged \<lparr>level = InfoLevel, message = ''req_start'',
                data = [''req_id'' \<mapsto> VString reqID,
                        ''uri'' \<mapsto> VString (RequestURI r),
                        ''method'' \<mapsto> VString (Method r),
                        ''remote'' \<mapsto> VString (RemoteAddr r)]\<rparr>,
        Called, Returned,
        Logged \<lparr>level = InfoLevel, message = ''req_served'',
                data = [''req_id'' \<mapsto> VString reqID,
                        ''status'' \<mapsto> VInt (status (maybeWriteHeader
                           (fst (fold perform (actions (h r)) (wrapWriter w, r))))),
                        ''method'' \<mapsto> VString (Method
                           (snd (fold perform (actions (h r)) (wrapWriter w, r)))),
                        ''uri'' \<mapsto> VString (RequestURI
                           (snd (fold perform (actions (h r)) (wrapWriter w, r)))),
                        ''remote'' \<mapsto> VString (RemoteAddr
                           (snd (fold perform (actions (h r)) (wrapWriter w, r)))),
                        ''latency'' \<mapsto> VString (sprintf (now_served clk - now_start clk)),
                        ''app'' \<mapsto> VString name]\<rparr>],
     writer = inner (maybeWriteHeader (fst (fold perform (actions (h r)) (wrapWriter w, r)))),
     request = snd (fold perform (actions (h r)) (wrapWriter w, r))\<rparr>"
  using assms
  by (simp add: NewGlogrusWithReqId_def ServeHTTP_def Info_def Since_def Let_def case_prod_beta)

lemma dom_req_start:
  "dom [''req_id'' \<mapsto> a, ''uri'' \<mapsto> b, ''method'' \<mapsto> c, ''remote'' \<mapsto> (d::Value)] =
     {''req_id'', ''uri'', ''method'', ''remote''}"
  by auto

lemma dom_req_served:
  "dom [''req_id'' \<mapsto> a, ''status'' \<mapsto> b, ''method'' \<mapsto> c, ''uri'' \<mapsto> d,
        ''remote'' \<mapsto> e, ''latency'' \<mapsto> f, ''app'' \<mapsto> (g::Value)] =
     {''req_id'', ''status'', ''method'', ''uri'', ''remote'', ''latency'', ''app''}"
  by auto

section \<open>The captured status\<close>

text \<open>
  C1. For every request whose handler returns, the \<open>status\<close> field of the
  \<open>req_served\<close> record is the first status code the handler set with \<^verbatim>\<open>WriteHeader\<close>,
  or 200 if the handler called \<^verbatim>\<open>Write\<close> before setting one, or 200 if the handler wrote
  nothing at all.
\<close>

theorem served_status_is_expected:
  assumes "reqidf (Context r) = Inr reqID" and "ending (h r) = Returns"
  shows "\<exists>s d. events (NewGlogrusWithReqId sprintf name reqidf h clk w r l) =
                  l @ [Logged s, Called, Returned, Logged d] \<and>
               message d = ''req_served'' \<and>
               data d ''status'' = Some (VInt (expected_status (actions (h r))))"
  by (simp add: handler_returns [where reqidf = reqidf and h = h, OF assms]
        status_after_handler)

theorem served_status_is_expected_witness:
  "(\<exists>s d. events (NewGlogrusWithReqId render ''shop'' req_123 not_found tick [] ping []) =
            [] @ [Logged s, Called, Returned, Logged d] \<and>
          message d = ''req_served'' \<and> data d ''status'' = Some (VInt 404)) \<and>
   (\<exists>s d. events (NewGlogrusWithReqId render ''shop'' req_123 body_only tick [] ping []) =
            [] @ [Logged s, Called, Returned, Logged d] \<and>
          message d = ''req_served'' \<and> data d ''status'' = Some (VInt 200)) \<and>
   (\<exists>s d. events (NewGlogrusWithReqId render ''shop'' req_123 silent tick [] ping []) =
            [] @ [Logged s, Called, Returned, Logged d] \<and>
          message d = ''req_served'' \<and> data d ''status'' = Some (VInt 200))"
  using
    served_status_is_expected [where reqidf = req_123 and reqID = "''req-123''" and h = not_found
      and r = ping and sprintf = render and name = "''shop''" and clk = tick and w = "[]"
      and l = "[]"]
    served_status_is_expected [where reqidf = req_123 and reqID = "''req-123''" and h = body_only
      and r = ping and sprintf = render and name = "''shop''" and clk = tick and w = "[]"
      and l = "[]"]
    served_status_is_expected [where reqidf = req_123 and reqID = "''req-123''" and h = silent
      and r = ping and sprintf = render and name = "''shop''" and clk = tick and w = "[]"
      and l = "[]"]
  by (simp add: req_123_def not_found_def body_only_def silent_def)

section \<open>Two records around one call\<close>

text \<open>
  C2. For every request the wrapped handler is called for, the closure emits exactly one
  \<open>req_start\<close> record before the call; when the handler returns, exactly one
  \<open>req_served\<close> record follows the return; when the handler panics nothing follows the
  call, so no \<open>req_served\<close> record is emitted. (When the resolver panics the handler
  is never called and the events stay as they were.)
\<close>

theorem start_before_call_served_after_return:
  "case reqidf (Context r) of
     Inl e \<Rightarrow> events (NewGlogrusWithReqId sprintf name reqidf h clk w r l) = l
   | Inr reqID \<Rightarrow>
       (case ending (h r) of
          Returns \<Rightarrow>
            \<exists>s d. message s = ''req_start'' \<and> message d = ''req_served'' \<and>
              events (NewGlogrusWithReqId sprintf name reqidf h clk w r l) =
                l @ [Logged s, Called, Returned, Logged d]
        | Panics e \<Rightarrow>
            \<exists>s. message s = ''req_start'' \<and>
              events (NewGlogrusWithReqId sprintf name reqidf h clk w r l) =
                l @ [Logged s, Called])"
proof (cases "reqidf (Context r)")
  case (Inl e)
  then show ?thesis
    by (simp add: resolver_panics [where reqidf = reqidf, OF Inl])
next
  case (Inr reqID)
  show ?thesis
  proof (cases "ending (h r)")
    case Returns
    show ?thesis
      by (simp add: Inr Returns handler_returns [where reqidf = reqidf and h = h, OF Inr Returns])
  next
    case (Panics e)
    show ?thesis
      by (simp add: Inr Panics handler_panics [where reqidf = reqidf and h = h, OF Inr Panics])
  qed
qed

theorem start_before_call_served_after_return_witness:
  "(\<exists>s d. message s = ''req_start'' \<and> message d = ''req_served'' \<and>
      events (NewGlogrusWithReqId render ''shop'' req_123 body_only tick [] ping []) =
        [] @ [Logged s, Called, Returned, Logged d]) \<and>
   (\<exists>s. message s = ''req_start'' \<and>
      events (NewGlogrusWithReqId render ''shop'' req_123 crashing tick [] ping []) =
        [] @ [Logged s, Called]) \<and>
   events (NewGlogrusWithReqId render ''shop'' broken_resolver silent tick [] ping []) = []"
  using
    start_before_call_served_after_return [where reqidf = req_123 and h = body_only and r = ping
      and sprintf = render and name = "''shop''" and clk = tick and w = "[]" and l = "[]"]
    start_before_call_served_after_return [where reqidf = req_123 and h = crashing and r = ping
      and sprintf = render and name = "''shop''" and clk = tick and w = "[]" and l = "[]"]
    start_before_call_served_after_return [where reqidf = broken_resolver and h = silent and r = ping
      and sprintf = render and name = "''shop''" and clk = tick and w = "[]" and l = "[]"]
  by (simp add: req_123_def broken_resolver_def body_only_def crashing_def)

section \<open>The shape of the records\<close>

text \<open>
  C3. Every record the closure emits is handed to the logger at info level. The record
  emitted before the call of the handler has the message \<open>req_start\<close> and exactly the
  fields \<open>req_id\<close>, \<open>uri\<close>, \<open>method\<close> and \<open>remote\<close>; the record emitted after the
  handler returned has the message \<open>req_served\<close> and exactly the fields \<open>req_id\<close>,
  \<open>status\<close>, \<open>method\<close>, \<open>uri\<close>, \<open>remote\<close>, \<open>latency\<close> and \<open>app\<close>.
\<close>

theorem record_shapes:
  "case reqidf (Context r) of
     Inl e \<Rightarrow> events (NewGlogrusWithReqId sprintf name reqidf h clk w r l) = l
   | Inr reqID \<Rightarrow>
       (case ending (h r) of
          Returns \<Rightarrow>
            \<exists>s d. events (NewGlogrusWithReqId sprintf name reqidf h clk w r l) =
                     l @ [Logged s, Called, Returned, Logged d] \<and>
              level s = InfoLevel \<and> message s = ''req_start'' \<and>
              dom (data s) = {''req_id'', ''uri'', ''method'', ''remote''} \<and>
              level d = InfoLevel \<and> message d = ''req_served'' \<and>
              dom (data d) =
                {''req_id'', ''status'', ''method'', ''uri'', ''remote'', ''latency'', ''app''}
        | Panics e \<Rightarrow>
            \<exists>s. events (NewGlogrusWithReqId sprintf name reqidf h clk w r l) =
                   l @ [Logged s, Called] \<and>
              level s = InfoLevel \<and> message s = ''req_start'' \<and>
              dom (data s) = {''req_id'', ''uri'', ''method'', ''remote''})"
proof (cases "reqidf (Context r)")
  case (Inl e)
  then show ?thesis
    by (simp add: resolver_panics [where reqidf = reqidf, OF Inl])
next
  case (Inr reqID)
  show ?thesis
  proof (cases "ending (h r)")
    case Returns
    show ?thesis
      unfolding handler_returns [where reqidf = reqidf and h = h, OF Inr Returns]
      by (simp add: Inr Returns dom_req_start dom_req_served del: dom_fun_upd fun_upd_apply)
  next
    case (Panics e)
    show ?thesis
      unfolding handler_panics [where reqidf = reqidf and h = h, OF Inr Panics]
      by (simp add: Inr Panics dom_req_start del: dom_fun_upd fun_upd_apply)
  qed
qed

theorem record_shapes_witness:
  "(\<exists>s d. events (NewGlogrusWithReqId render ''shop'' req_123 not_found tick [] upload []) =
            [] @ [Logged s, Called, Returned, Logged d] \<and>
      level s = InfoLevel \<and> message s = ''req_start'' \<and>
      dom (data s) = {''req_id'', ''uri'', ''method'', ''remote''} \<and>
      level d = InfoLevel \<and> message d = ''req_served'' \<and>
      dom (data d) =
        {''req_id'', ''status'', ''method'', ''uri'', ''remote'', ''latency'', ''app''})"
  using record_shapes [where reqidf = req_123 and h = not_found and r = upload
      and sprintf = render and name = "''shop''" and clk = tick and w = "[]" and l = "[]"]
  by (simp add: req_123_def not_found_def)

section \<open>The observer records once\<close>



section \<open>The request identifier\<close>

text \<open>
  C6. When the resolver returns \<open>reqID\<close> for the context of the request, every record of
  that request carries \<open>req_id = reqID\<close>: the \<open>req_start\<close> record and, when the handler
  returns, the \<open>req_served\<close> record. With the default constructor \<^verbatim>\<open>NewGlogrus\<close> the value
  is the empty string for every request.
\<close>

theorem req_id_is_resolved:
  "(reqidf (Context r) = Inr reqID \<longrightarrow>
      (case ending (h r) of
         Returns \<Rightarrow>
           \<exists>s d. events (NewGlogrusWithReqId sprintf name reqidf h clk w r l) =
                    l @ [Logged s, Called, Returned, Logged d] \<and>
             data s ''req_id'' = Some (VString reqID) \<and>
             data d ''req_id'' = Some (VString reqID)
       | Panics e \<Rightarrow>
           \<exists>s. events (NewGlogrusWithReqId sprintf name reqidf h clk w r l) =
                  l @ [Logged s, Called] \<and>
             data s ''req_id'' = Some (VString reqID))) \<and>
   (case ending (h r) of
      Returns \<Rightarrow>
        \<exists>s d. events (NewGlogrus sprintf name h clk w r l) =
                 l @ [Logged s, Called, Returned, Logged d] \<and>
          data s ''req_id'' = Some (VString '''') \<and>
          data d ''req_id'' = Some (VString '''')
    | Panics e \<Rightarrow>
        \<exists>s. events (NewGlogrus sprintf name h clk w r l) = l @ [Logged s, Called] \<and>
          data s ''req_id'' = Some (VString ''''))"
proof (intro conjI impI)
  assume res: "reqidf (Context r) = Inr reqID"
  show "case ending (h r) of
      Returns \<Rightarrow>
        \<exists>s d. events (NewGlogrusWithReqId sprintf name reqidf h clk w r l) =
                 l @ [Logged s, Called, Returned, Logged d] \<and>
          data s ''req_id'' = Some (VString reqID) \<and>
          data d ''req_id'' = Some (VString reqID)
    | Panics e \<Rightarrow>
        \<exists>s. events (NewGlogrusWithReqId sprintf name reqidf h clk w r l) =
               l @ [Logged s, Called] \<and>
          data s ''req_id'' = Some (VString reqID)"
  proof (cases "ending (h r)")
    case Returns
    show ?thesis
      unfolding handler_returns [where reqidf = reqidf and h = h, OF res Returns]
      by (simp add: Returns)
  next
    case (Panics e)
    show ?thesis
      unfolding handler_panics [where reqidf = reqidf and h = h, OF res Panics]
      by (simp add: Panics)
  qed
next
  have res: "emptyRequestId (Context r) = Inr ''''"
    by (simp add: emptyRequestId_def)
  show "case ending (h r) of
      Returns \<Rightarrow>
        \<exists>s d. events (NewGlogrus sprintf name h clk w r l) =
                 l @ [Logged s, Called, Returned, Logged d] \<and>
          data s ''req_id'' = Some (VString '''') \<and>
          data d ''req_id'' = Some (VString '''')
    | Panics e \<Rightarrow>
        \<exists>s. events (NewGlogrus sprintf name h clk w r l) = l @ [Logged s, Called] \<and>
          data s ''req_id'' = Some (VString '''')"
  proof (cases "ending (h r)")
    case Returns
    show ?thesis
      unfolding NewGlogrus_def
        handler_returns [where reqidf = emptyRequestId and h = h, OF res Returns]
      by (simp add: Returns)
  next
    case (Panics e)
    show ?thesis
      unfolding NewGlogrus_def
        handler_panics [where reqidf = emptyRequestId and h = h, OF res Panics]
      by (simp add: Panics)
  qed
qed

theorem req_id_is_resolved_witness:
  "(\<exists>s d. events (NewGlogrusWithReqId render ''shop'' req_123 silent tick [] ping []) =
            [] @ [Logged s, Called, Returned, Logged d] \<and>
      data s ''req_id'' = Some (VString ''req-123'') \<and>
      data d ''req_id'' = Some (VString ''req-123'')) \<and>
   (\<exists>s d. events (NewGlogrus render ''shop'' silent tick [] ping []) =
            [] @ [Logged s, Called, Returned, Logged d] \<and>
      data s ''req_id'' = Some (VString '''') \<and>
      data d ''req_id'' = Some (VString ''''))"
  using req_id_is_resolved [where reqidf = req_123 and reqID = "''req-123''" and h = silent
      and r = ping and sprintf = render and name = "''shop''" and clk = tick and w = "[]"
      and l = "[]"]
  by (simp add: req_123_def silent_def)

section \<open>Panics pass through\<close>

text \<open>
  C7. The closure handles no failure. When the resolver panics, the panic is the result
  of the closure and nothing else has happened: no record, no call of the handler, the
  writer and the request untouched. When the wrapped handler panics, its panic is the
  result of the closure, and the events of the request end with the one call of the
  handler: no \<open>req_served\<close> record and no second attempt.
\<close>

theorem panics_propagate:
  "(reqidf (Context r) = Inl e \<longrightarrow>
      NewGlogrusWithReqId sprintf name reqidf h clk w r l =
        \<lparr>result = Inl e, events = l, writer = w, request = r\<rparr>) \<and>
   (reqidf (Context r) = Inr reqID \<and> ending (h r) = Panics e \<longrightarrow>
      result (NewGlogrusWithReqId sprintf name reqidf h clk w r l) = Inl e \<and>
      (\<exists>s. message s = ''req_start'' \<and>
         events (NewGlogrusWithReqId sprintf name reqidf h clk w r l) =
           l @ [Logged s, Called]))"
proof (intro conjI impI)
  assume "reqidf (Context r) = Inl e"
  then show "NewGlogrusWithReqId sprintf name reqidf h clk w r l =
      \<lparr>result = Inl e, events = l, writer = w, request = r\<rparr>"
    by (rule resolver_panics)
next
  assume "reqidf (Context r) = Inr reqID \<and> ending (h r) = Panics e"
  then have res: "reqidf (Context r) = Inr reqID" and pan: "ending (h r) = Panics e"
    by simp_all
  show "result (NewGlogrusWithReqId sprintf name reqidf h clk w r l) = Inl e"
    and "\<exists>s. message s = ''req_start'' \<and>
      events (NewGlogrusWithReqId sprintf name reqidf h clk w r l) = l @ [Logged s, Called]"
    unfolding handler_panics [where reqidf = reqidf and h = h, OF res pan]
    by simp_all
qed

theorem panics_propagate_witness:
  "NewGlogrusWithReqId render ''shop'' broken_resolver not_found tick [] ping [] =
     \<lparr>result = Inl (Panic ''no request id''), events = [], writer = [], request = ping\<rparr> \<and>
   result (NewGlogrusWithReqId render ''shop'' req_123 crashing tick [] ping []) =
     Inl (Panic ''boom'') \<and>
   (\<exists>s. message s = ''req_start'' \<and>
      events (NewGlogrusWithReqId render ''shop'' req_123 crashing tick [] ping []) =
        [] @ [Logged s, Called])"
  using
    panics_propagate [where reqidf = broken_resolver and e = "Panic ''no request id''"
      and h = not_found and r = ping and sprintf = render and name = "''shop''"
      and clk = tick and w = "[]" and l = "[]"]
    panics_propagate [where reqidf = req_123 and reqID = "''req-123''" and e = "Panic ''boom''"
      and h = crashing and r = ping and sprintf = render and name = "''shop''"
      and clk = tick and w = "[]" and l = "[]"]
  by (simp add: broken_resolver_def req_123_def crashing_def)

section \<open>The default constructor\<close>

text \<open>
  C8. For every formatter, application name, handler, request and state of the logger,
  the middleware \<^verbatim>\<open>NewGlogrus(l, name)\<close> is the middleware
  \<^verbatim>\<open>NewGlogrusWithReqId(l, name, resolver)\<close> whose resolver returns the empty string for
  every context.
\<close>

theorem default_constructor:
  "NewGlogrus sprintf name h clk w r l =
     NewGlogrusWithReqId sprintf name (\<lambda>ctx. Inr '''') h clk w r l"
  by (simp add: NewGlogrus_def emptyRequestId_def [abs_def])

theorem default_constructor_witness:
  "NewGlogrus render ''shop'' body_only tick [] upload [] =
     NewGlogrusWithReqId render ''shop'' (\<lambda>ctx. Inr '''') body_only tick [] upload []"
  using default_constructor [where sprintf = render and name = "''shop''" and h = body_only
      and clk = tick and w = "[]" and r = upload and l = "[]"]
  by simp

section \<open>Requests do not interfere\<close>







section \<open>The request as the handler left it\<close>

text \<open>
  C10. The \<open>method\<close>, \<open>uri\<close> and \<open>remote\<close> fields of the \<open>req_served\<close> record are
  read from the request after the handler returned, that is from the request with the
  handler's assignments applied, while those of the \<open>req_start\<close> record are read before
  the call. So when the handler leaves \<^verbatim>\<open>Method\<close>, \<^verbatim>\<open>RequestURI\<close> and \<^verbatim>\<open>RemoteAddr\<close> as they
  were, the three fields are equal in the two records.
\<close>

theorem served_reads_request_after_handler:
  assumes "reqidf (Context r) = Inr reqID" and "ending (h r) = Returns"
  shows "\<exists>s d r'.
     events (NewGlogrusWithReqId sprintf name reqidf h clk w r l) =
       l @ [Logged s, Called, Returned, Logged d] \<and>
     r' = fold assigned (actions (h r)) r \<and>
     request (NewGlogrusWithReqId sprintf name reqidf h clk w r l) = r' \<and>
     data s ''method'' = Some (VString (Method r)) \<and>
     data s ''uri'' = Some (VString (RequestURI r)) \<and>
     data s ''remote'' = Some (VString (RemoteAddr r)) \<and>
     data d ''method'' = Some (VString (Method r')) \<and>
     data d ''uri'' = Some (VString (RequestURI r')) \<and>
     data d ''remote'' = Some (VString (RemoteAddr r')) \<and>
     (Method r' = Method r \<and> RequestURI r' = RequestURI r \<and> RemoteAddr r' = RemoteAddr r
        \<longrightarrow> data d ''method'' = data s ''method'' \<and> data d ''uri'' = data s ''uri'' \<and>
          data d ''remote'' = data s ''remote'')"
  unfolding handler_returns [where reqidf = reqidf and h = h, OF assms]
  by (simp add: request_after_handler)

theorem served_reads_request_after_handler_witness:
  "(\<exists>s d.
      events (NewGlogrusWithReqId render ''shop'' req_123 body_only tick [] ping []) =
        [] @ [Logged s, Called, Returned, Logged d] \<and>
      data d ''method'' = Some (VString ''GET'') \<and> data d ''method'' = data s ''method'' \<and>
      data d ''uri'' = Some (VString ''/ping'') \<and> data d ''uri'' = data s ''uri'' \<and>
      data d ''remote'' = Some (VString ''10.0.0.1:4242'') \<and>
      data d ''remote'' = data s ''remote'') \<and>
   (\<exists>s d.
      events (NewGlogrusWithReqId render ''shop'' req_123 real_ip tick [] ping []) =
        [] @ [Logged s, Called, Returned, Logged d] \<and>
      data s ''remote'' = Some (VString ''10.0.0.1:4242'') \<and>
      data d ''remote'' = Some (VString ''192.0.2.7''))"
  using
    served_reads_request_after_handler [where reqidf = req_123 and reqID = "''req-123''"
      and h = body_only and r = ping and sprintf = render and name = "''shop''" and clk = tick
      and w = "[]" and l = "[]"]
    served_reads_request_after_handler [where reqidf = req_123 and reqID = "''req-123''"
      and h = real_ip and r = ping and sprintf = render and name = "''shop''" and clk = tick
      and w = "[]" and l = "[]"]
  by (auto simp add: req_123_def body_only_def real_ip_def ping_def)

end
